theory Spec2Isabelle
  imports Complex_Main "HOL-Library.AList"
begin

section \<open>Numbers, errors and the detector's output\<close>

text \<open>
  The application (app.py) stores one dictionary per processed image in a JSON
  history file and derives statistics from it. Python numbers are dynamically
  typed: the confidence of a record is the integer 0 when no ball was found and
  a float otherwise. A float is modelled by the exact rational it denotes;
  \<open>round(x, 2)\<close> is Python's documented rounding to the closest multiple of
  1/100, the even multiple on a tie.
\<close>

datatype pynum = PyInt int | PyFloat rat

datatype py_error = JSONDecodeError | BadRequestKeyError | ZeroDivisionError

fun num_value :: "pynum \<Rightarrow> rat" where
  "num_value (PyInt n) = of_int n"
| "num_value (PyFloat q) = q"

text \<open>\<open>int(x)\<close> on a float truncates towards zero.\<close>

definition py_int :: "rat \<Rightarrow> int" where
  "py_int q = (if 0 \<le> q then \<lfloor>q\<rfloor> else \<lceil>q\<rceil>)"

definition round_half_even :: "rat \<Rightarrow> int" where
  "round_half_even q =
     (let f = \<lfloor>q\<rfloor>; d = q - of_int f
      in if d < 1 / 2 then f
         else if 1 / 2 < d then f + 1
         else if even f then f else f + 1)"

text \<open>\<open>round(x, 2)\<close>: an int is returned as it is, a float is rounded.\<close>

fun py_round2 :: "pynum \<Rightarrow> pynum" where
  "py_round2 (PyInt n) = PyInt n"
| "py_round2 (PyFloat q) = PyFloat (of_int (round_half_even (q * 100)) / 100)"

text \<open>\<open>a + b\<close>: the result is an int only when both operands are.\<close>

fun py_add :: "pynum \<Rightarrow> pynum \<Rightarrow> pynum" where
  "py_add (PyInt a) (PyInt b) = PyInt (a + b)"
| "py_add a b = PyFloat (num_value a + num_value b)"


text \<open>\<open>a / b\<close>: true division, a float, ZeroDivisionError on a zero divisor.\<close>

definition py_truediv :: "pynum \<Rightarrow> pynum \<Rightarrow> py_error + pynum" where
  "py_truediv a b =
     (if num_value b = 0 then Inl ZeroDivisionError
      else Inr (PyFloat (num_value a / num_value b)))"

text \<open>The builtin \<open>sum\<close>: a left fold of \<open>+\<close> from the integer 0.\<close>

definition py_sum :: "pynum list \<Rightarrow> pynum" where
  "py_sum xs = foldl py_add (PyInt 0) xs"

text \<open>
  A value with at most two decimal places: an integer, or a float that is a
  whole number of hundredths.
\<close>

fun two_decimals :: "pynum \<Rightarrow> bool" where
  "two_decimals (PyInt n) = True"
| "two_decimals (PyFloat q) = (of_int \<lfloor>q * 100\<rfloor> = q * 100)"

text \<open>
  One element of \<open>r.boxes\<close>: the class tensor's entry, the score and the four
  corner coordinates, all floats as the detector yields them.
\<close>

record box =
  cls :: rat
  conf :: rat
  xyxy :: "rat \<times> rat \<times> rat \<times> rat"

text \<open>
  The image in memory: where it was loaded from and what has been drawn on it.
  The label text is \<open>Ball\<close> followed by the score; the score is kept as a value.
\<close>

datatype draw_op =
    Rectangle int int int int
  | PutText rat int int

record img =
  loaded_from :: string
  drawn :: "draw_op list"

section \<open>The history file\<close>

text \<open>
  A record of the history, with the keys of the dictionary built in
  \<open>detect_ball\<close>: date, image, ball_detected, confidence, bbox.
\<close>

record detection_record =
  date :: string
  image_name :: string
  ball_detected :: bool
  confidence :: pynum
  bbox :: "int list option"

text \<open>
  The file history/history.json as the readers see it: absent, present with
  size 0, present with bytes that \<open>json.load\<close> rejects, or present with a JSON
  array of records. \<open>json.dump\<close> followed by \<open>json.load\<close> gives back the value
  written, so a written file is represented by the value it holds. A file
  holding JSON of another shape is not represented.
\<close>

datatype history_file =
    Missing
  | Zero_size
  | Invalid_json
  | Document "detection_record list"

record fs =
  history_file :: history_file
  uploads_dir :: "(string \<times> string) list"
  results_dir :: "(string \<times> img) list"

text \<open>
  The read that every operation repeats:
  \<open>if os.path.exists(HISTORY_FILE) and os.path.getsize(HISTORY_FILE) > 0:
  json.load(f) else []\<close>.
\<close>

fun load_history :: "fs \<Rightarrow> py_error + detection_record list" where
  "load_history s =
     (case history_file s of
        Missing \<Rightarrow> Inr []
      | Zero_size \<Rightarrow> Inr []
      | Invalid_json \<Rightarrow> Inl JSONDecodeError
      | Document rs \<Rightarrow> Inr rs)"

section \<open>detect_ball\<close>

text \<open>The local variables of \<open>detect_ball\<close> that the loops update.\<close>

record scan =
  s_ball_detected :: bool
  s_confidence :: pynum
  s_bbox :: "int list option"
  s_image :: img

definition sports_ball :: int where
  "sports_ball = 32"

text \<open>The body of the \<open>if cls == 32\<close> branch, before its \<open>break\<close>.\<close>

definition mark :: "scan \<Rightarrow> box \<Rightarrow> scan" where
  "mark s b =
     (case xyxy b of (a1, b1, a2, b2) \<Rightarrow>
        let x1 = py_int a1; y1 = py_int b1; x2 = py_int a2; y2 = py_int b2
        in \<lparr> s_ball_detected = True,
             s_confidence = PyFloat (conf b),
             s_bbox = Some [x1, y1, x2, y2],
             s_image = (s_image s)\<lparr> drawn := drawn (s_image s) @
                          [Rectangle x1 y1 x2 y2, PutText (conf b) x1 (y1 - 10)] \<rparr> \<rparr>)"

text \<open>\<open>for box in r.boxes\<close>: left at the first box of class 32.\<close>

fun scan_boxes :: "scan \<Rightarrow> box list \<Rightarrow> scan" where
  "scan_boxes s [] = s"
| "scan_boxes s (b # bs) =
     (if py_int (cls b) = sports_ball then mark s b else scan_boxes s bs)"

text \<open>\<open>for r in results\<close>: the \<open>break\<close> leaves the inner loop only.\<close>

fun scan_results :: "scan \<Rightarrow> box list list \<Rightarrow> scan" where
  "scan_results s [] = s"
| "scan_results s (r # rs) = scan_results (scan_boxes s r) rs"

text \<open>\<open>os.path.basename\<close>: what follows the last slash.\<close>

definition basename :: "string \<Rightarrow> string" where
  "basename p = rev (takeWhile (\<lambda>c. c \<noteq> CHR ''/'') (rev p))"

text \<open>\<open>os.path.join\<close> of two components.\<close>

definition path_join :: "string \<Rightarrow> string \<Rightarrow> string" where
  "path_join a b =
     (if b \<noteq> [] \<and> hd b = CHR ''/'' then b
      else if a = [] \<or> last a = CHR ''/'' then a @ b
      else a @ ''/'' @ b)"


definition RESULT_DIR :: string where
  "RESULT_DIR = ''results''"

text \<open>
  The log-write path of \<open>detect_ball\<close>: read the whole file, append in memory,
  write the whole file.
\<close>

definition append_record :: "detection_record \<Rightarrow> fs \<Rightarrow> py_error + fs" where
  "append_record r s =
     (case load_history s of
        Inl e \<Rightarrow> Inl e
      | Inr data \<Rightarrow> Inr (s\<lparr> history_file := Document (data @ [r]) \<rparr>))"

text \<open>
  \<open>detect_ball(image_path)\<close>. The detector and the clock are the environment:
  \<open>results\<close> is what \<open>model(cv2.imread(image_path))\<close> returns, \<open>now\<close> the
  formatted current time. The result image is written before the history is
  read, so the file system is returned on failure as well.
\<close>

definition detect_ball ::
  "box list list \<Rightarrow> string \<Rightarrow> string \<Rightarrow> fs
     \<Rightarrow> (py_error + (string \<times> detection_record)) \<times> fs" where
  "detect_ball results now image_path s =
     (let image = \<lparr> loaded_from = image_path, drawn = [] \<rparr>;
          st = scan_results \<lparr> s_ball_detected = False, s_confidence = PyInt 0,
                             s_bbox = None, s_image = image \<rparr> results;
          filename = basename image_path;
          result_path = path_join RESULT_DIR filename;
          s1 = s\<lparr> results_dir := AList.update result_path (s_image st) (results_dir s) \<rparr>;
          record = \<lparr> date = now, image_name = filename,
                     ball_detected = s_ball_detected st,
                     confidence = py_round2 (s_confidence st),
                     bbox = s_bbox st \<rparr>
      in case append_record record s1 of
           Inl e \<Rightarrow> (Inl e, s1)
         | Inr s2 \<Rightarrow> (Inr (filename, record), s2))"

section \<open>get_statistics\<close>

record summary =
  total_images :: int
  found :: int
  not_found :: int
  avg_confidence :: pynum

text \<open>\<open>sum(1 for r in history if r["ball_detected"])\<close>.\<close>

definition count_found :: "detection_record list \<Rightarrow> int" where
  "count_found history = sum_list (map (\<lambda>r. 1) (filter ball_detected history))"

definition get_statistics :: "fs \<Rightarrow> py_error + summary" where
  "get_statistics s =
     (case load_history s of
        Inl e \<Rightarrow> Inl e
      | Inr history \<Rightarrow>
          let total = int (length history);
              fnd = count_found history;
              nfnd = total - fnd
          in (case (if 0 < total
                   then (case py_truediv (py_sum (map confidence history)) (PyInt total) of
                           Inl e \<Rightarrow> Inl e
                         | Inr m \<Rightarrow> Inr (py_round2 m))
                   else Inr (PyInt 0)) of
               Inl e \<Rightarrow> Inl e
             | Inr avg \<Rightarrow>
                 Inr \<lparr> total_images = total, found = fnd, not_found = nfnd,
                       avg_confidence = avg \<rparr>))"

section \<open>The reports\<close>






section \<open>The index page\<close>


text \<open>An uploaded file; it is falsy when its filename is empty.\<close>

record file_storage =
  filename :: string
  content :: string





section \<open>Notions used to state the properties\<close>

text \<open>
  The mean of the confidence field over all records of a log, as an exact
  number: the sum of the stored values divided by the number of records.
\<close>

definition mean_confidence :: "detection_record list \<Rightarrow> rat" where
  "mean_confidence h = sum_list (map (\<lambda>r. num_value (confidence r)) h) / of_nat (length h)"

text \<open>The loop variables agree: there is a box exactly when a ball was detected.\<close>

definition consistent :: "scan \<Rightarrow> bool" where
  "consistent s = (s_bbox s = None \<longleftrightarrow> \<not> s_ball_detected s)"

section \<open>Rounding and sums\<close>

lemma py_int_of_int: "py_int (of_int n) = n"
  by (simp add: py_int_def)

lemma round_half_even_of_int: "round_half_even (of_int k) = k"
  by (simp add: round_half_even_def)



lemma two_decimals_round2: "two_decimals (py_round2 x)"
  by (cases x) simp_all

lemma py_round2_idem: "py_round2 (py_round2 x) = py_round2 x"
  by (cases x) (simp_all add: round_half_even_of_int)


lemma num_value_py_add: "num_value (py_add a b) = num_value a + num_value b"
  by (cases a; cases b) simp_all

lemma num_value_foldl_py_add:
  "num_value (foldl py_add a xs) = num_value a + sum_list (map num_value xs)"
  by (induction xs arbitrary: a) (simp_all add: num_value_py_add)

lemma num_value_py_sum: "num_value (py_sum xs) = sum_list (map num_value xs)"
  by (simp add: py_sum_def num_value_foldl_py_add)

lemma count_found_length: "count_found h = int (length (filter ball_detected h))"
  unfolding count_found_def by (induction h) simp_all

lemma mean_division:
  "h \<noteq> [] \<Longrightarrow>
   py_truediv (py_sum (map confidence h)) (PyInt (int (length h))) =
     Inr (PyFloat (mean_confidence h))"
  by (simp add: py_truediv_def num_value_py_sum mean_confidence_def comp_def)

section \<open>The loops of detect_ball\<close>





lemma consistent_mark: "consistent (mark s b)"
  by (simp add: consistent_def mark_def Let_def split: prod.splits)

lemma consistent_scan_boxes: "consistent s \<Longrightarrow> consistent (scan_boxes s bs)"
  by (induction bs) (simp_all add: consistent_mark)

lemma consistent_scan_results: "consistent s \<Longrightarrow> consistent (scan_results s rs)"
  by (induction rs arbitrary: s) (simp_all add: consistent_scan_boxes)

section \<open>Reading and writing the history\<close>

lemma append_record_loaded:
  "load_history s = Inr old \<Longrightarrow>
   append_record r s = Inr (s\<lparr> history_file := Document (old @ [r]) \<rparr>)"
  by (simp add: append_record_def)

lemma append_record_failed:
  "load_history s = Inl e \<Longrightarrow> append_record r s = Inl e"
  by (simp add: append_record_def)

lemma detect_ball_loaded:
  assumes "load_history s = Inr old"
  shows "detect_ball results now p s =
     (let st = scan_results \<lparr> s_ball_detected = False, s_confidence = PyInt 0,
                  s_bbox = None, s_image = \<lparr> loaded_from = p, drawn = [] \<rparr> \<rparr> results;
          r = \<lparr> date = now, image_name = basename p,
                ball_detected = s_ball_detected st,
                confidence = py_round2 (s_confidence st),
                bbox = s_bbox st \<rparr>
      in (Inr (basename p, r),
          s\<lparr> results_dir := AList.update (path_join RESULT_DIR (basename p)) (s_image st)
                               (results_dir s),
             history_file := Document (old @ [r]) \<rparr>))"
proof -
  have "load_history (s\<lparr> results_dir := d \<rparr>) = Inr old" for d
    using assms by simp
  then show ?thesis
    unfolding detect_ball_def Let_def
    by (simp add: append_record_loaded del: load_history.simps py_round2.simps)
qed

lemma get_statistics_loaded:
  assumes "load_history s = Inr h"
  shows "get_statistics s =
           Inr \<lparr> total_images = int (length h),
                 found = count_found h,
                 not_found = int (length h) - count_found h,
                 avg_confidence =
                   (if h = [] then PyInt 0
                    else py_round2 (PyFloat (mean_confidence h))) \<rparr>"
proof (cases "h = []")
  case True
  with assms show ?thesis
    by (simp add: get_statistics_def count_found_def)
next
  case False
  then have "0 < int (length h)" by simp
  with assms False show ?thesis
    unfolding get_statistics_def Let_def
    by (simp add: mean_division del: load_history.simps py_round2.simps)
qed








section \<open>Properties of detect_ball\<close>





text \<open>
  C4. Every record that \<open>detect_ball\<close> writes to the history (the call
  returned it, and it is the last record of the history read back) has no
  box exactly when \<open>ball_detected\<close> is false, and a confidence with at most
  two decimal places, which rounding to two places leaves unchanged.
\<close>

theorem detect_ball_record_invariant:
  assumes "detect_ball results now p s = (Inr (f, r), s')"
  shows "(bbox r = None \<longleftrightarrow> \<not> ball_detected r)
           \<and> two_decimals (confidence r)
           \<and> py_round2 (confidence r) = confidence r
           \<and> (\<exists>old. load_history s = Inr old \<and> load_history s' = Inr (old @ [r]))"
proof (cases "load_history s")
  case (Inl e)
  then have "load_history (s\<lparr> results_dir := d \<rparr>) = Inl e" for d
    by simp
  then have "fst (detect_ball results now p s) = Inl e"
    unfolding detect_ball_def Let_def
    by (simp add: append_record_failed del: load_history.simps)
  with assms show ?thesis by simp
next
  case (Inr old)
  let ?init = "\<lparr> s_ball_detected = False, s_confidence = PyInt 0, s_bbox = None,
                 s_image = \<lparr> loaded_from = p, drawn = [] \<rparr> \<rparr>"
  have "consistent ?init"
    by (simp add: consistent_def)
  then have "consistent (scan_results ?init results)"
    by (rule consistent_scan_results)
  then have inv: "s_bbox (scan_results ?init results) = None
                    \<longleftrightarrow> \<not> s_ball_detected (scan_results ?init results)"
    by (simp add: consistent_def)
  from assms show ?thesis
    unfolding detect_ball_loaded [OF Inr] Let_def
    using inv Inr
    by (auto simp add: two_decimals_round2 py_round2_idem
             simp del: py_round2.simps two_decimals.simps)
qed

theorem detect_ball_record_invariant_witness:
  "detect_ball [[\<lparr> cls = 32, conf = 617 / 1000, xyxy = (10, 41 / 2, 30, 409 / 10) \<rparr>]]
       ''2024-05-01 12:00:00'' ''uploads/a.jpg''
       \<lparr> history_file = Zero_size, uploads_dir = [], results_dir = [] \<rparr>
     = (Inr (''a.jpg'',
             \<lparr> date = ''2024-05-01 12:00:00'', image_name = ''a.jpg'', ball_detected = True,
                confidence = PyFloat (31 / 50), bbox = Some [10, 20, 30, 40] \<rparr>),
        \<lparr> history_file = Document
            [\<lparr> date = ''2024-05-01 12:00:00'', image_name = ''a.jpg'', ball_detected = True,
               confidence = PyFloat (31 / 50), bbox = Some [10, 20, 30, 40] \<rparr>],
          uploads_dir = [],
          results_dir =
            [(''results/a.jpg'',
              \<lparr> loaded_from = ''uploads/a.jpg'',
                 drawn = [Rectangle 10 20 30 40, PutText (617 / 1000) 10 10] \<rparr>)] \<rparr>)
   \<and> two_decimals (PyFloat (31 / 50))
   \<and> py_round2 (PyFloat (31 / 50)) = PyFloat (31 / 50)"
proof -
  let ?r = "\<lparr> date = ''2024-05-01 12:00:00'', image_name = ''a.jpg'', ball_detected = True,
              confidence = PyFloat (31 / 50), bbox = Some [10, 20, 30, 40] \<rparr>"
  let ?s' = "\<lparr> history_file = Document [?r], uploads_dir = [],
               results_dir =
                 [(''results/a.jpg'',
                   \<lparr> loaded_from = ''uploads/a.jpg'',
                      drawn = [Rectangle 10 20 30 40, PutText (617 / 1000) 10 10] \<rparr>)] \<rparr>"
  have h: "detect_ball [[\<lparr> cls = 32, conf = 617 / 1000, xyxy = (10, 41 / 2, 30, 409 / 10) \<rparr>]]
             ''2024-05-01 12:00:00'' ''uploads/a.jpg''
             \<lparr> history_file = Zero_size, uploads_dir = [], results_dir = [] \<rparr>
           = (Inr (''a.jpg'', ?r), ?s')"
    by code_simp
  from detect_ball_record_invariant [OF h]
  have "two_decimals (confidence ?r)" "py_round2 (confidence ?r) = confidence ?r"
    by blast+
  with h show ?thesis
    by simp
qed

text \<open>
  C7. From any history that can be read, the log-write path of \<open>detect_ball\<close>
  followed by a reload gives a history whose last element is the appended
  record, field for field, and whose earlier elements are the records of the
  history before, unchanged and in the same order.
\<close>

theorem append_then_reload:
  assumes "load_history s = Inr old"
  shows "\<exists>s' new. append_record r s = Inr s'
           \<and> load_history s' = Inr new
           \<and> new = old @ [r]
           \<and> last new = r
           \<and> butlast new = old
           \<and> length new = length old + 1"
  unfolding append_record_loaded [OF assms]
  by simp

theorem append_then_reload_witness:
  "load_history
       \<lparr> history_file = Document
           [\<lparr> date = ''2024-05-01 11:00:00'', image_name = ''z.png'', ball_detected = True,
              confidence = PyFloat (87 / 100), bbox = Some [1, 2, 3, 4] \<rparr>],
         uploads_dir = [], results_dir = [] \<rparr>
     = Inr [\<lparr> date = ''2024-05-01 11:00:00'', image_name = ''z.png'', ball_detected = True,
              confidence = PyFloat (87 / 100), bbox = Some [1, 2, 3, 4] \<rparr>]
   \<and> (\<exists>s'. append_record
               \<lparr> date = ''2024-05-01 12:00:00'', image_name = ''a.jpg'',
                  ball_detected = False, confidence = PyInt 0, bbox = None \<rparr>
               \<lparr> history_file = Document
                   [\<lparr> date = ''2024-05-01 11:00:00'', image_name = ''z.png'',
                      ball_detected = True, confidence = PyFloat (87 / 100),
                      bbox = Some [1, 2, 3, 4] \<rparr>],
                 uploads_dir = [], results_dir = [] \<rparr> = Inr s'
            \<and> load_history s'
                = Inr [\<lparr> date = ''2024-05-01 11:00:00'', image_name = ''z.png'',
                         ball_detected = True, confidence = PyFloat (87 / 100),
                         bbox = Some [1, 2, 3, 4] \<rparr>,
                       \<lparr> date = ''2024-05-01 12:00:00'', image_name = ''a.jpg'',
                         ball_detected = False, confidence = PyInt 0, bbox = None \<rparr>])"
proof -
  let ?z = "\<lparr> date = ''2024-05-01 11:00:00'', image_name = ''z.png'', ball_detected = True,
              confidence = PyFloat (87 / 100), bbox = Some [1, 2, 3, 4] \<rparr>"
  let ?r = "\<lparr> date = ''2024-05-01 12:00:00'', image_name = ''a.jpg'',
              ball_detected = False, confidence = PyInt 0, bbox = None \<rparr>"
  let ?s = "\<lparr> history_file = Document [?z], uploads_dir = [], results_dir = [] \<rparr>"
  have h: "load_history ?s = Inr [?z]"
    by simp
  from append_then_reload [OF h, of ?r]
  have "\<exists>s'. append_record ?r ?s = Inr s' \<and> load_history s' = Inr [?z, ?r]"
    by auto
  with h show ?thesis
    by (intro conjI)
qed

section \<open>Properties of get_statistics and of the reports\<close>



text \<open>
  C5. For every history of N records of which F have \<open>ball_detected\<close> true,
  \<open>get_statistics\<close> returns found F, not_found N - F (the number of records
  without a ball) and total_images N, so found and not_found add up to
  total_images.
\<close>

theorem statistics_counts:
  assumes "load_history s = Inr h"
  shows "\<exists>st. get_statistics s = Inr st
           \<and> total_images st = int (length h)
           \<and> found st = int (length (filter ball_detected h))
           \<and> not_found st = int (length h) - int (length (filter ball_detected h))
           \<and> not_found st = int (length (filter (\<lambda>r. \<not> ball_detected r) h))
           \<and> found st + not_found st = total_images st"
proof -
  have "length (filter ball_detected h) + length (filter (\<lambda>r. \<not> ball_detected r) h) = length h"
    by (rule sum_length_filter_compl)
  then have "int (length h) - int (length (filter ball_detected h))
               = int (length (filter (\<lambda>r. \<not> ball_detected r) h))"
    by linarith
  then show ?thesis
    unfolding get_statistics_loaded [OF assms]
    by (simp add: count_found_length)
qed

theorem statistics_counts_witness:
  "load_history \<lparr> history_file = Document
           [\<lparr> date = ''2024-05-01 10:00:00'', image_name = ''x.png'', ball_detected = False,
              confidence = PyInt 0, bbox = None \<rparr>,
            \<lparr> date = ''2024-05-01 11:00:00'', image_name = ''y.png'', ball_detected = True,
              confidence = PyFloat (31 / 50), bbox = Some [10, 20, 30, 40] \<rparr>,
            \<lparr> date = ''2024-05-01 12:00:00'', image_name = ''z.png'', ball_detected = True,
              confidence = PyFloat (87 / 100), bbox = Some [1, 2, 3, 4] \<rparr>],
         uploads_dir = [], results_dir = [] \<rparr>
     = Inr [\<lparr> date = ''2024-05-01 10:00:00'', image_name = ''x.png'', ball_detected = False,
              confidence = PyInt 0, bbox = None \<rparr>,
            \<lparr> date = ''2024-05-01 11:00:00'', image_name = ''y.png'', ball_detected = True,
              confidence = PyFloat (31 / 50), bbox = Some [10, 20, 30, 40] \<rparr>,
            \<lparr> date = ''2024-05-01 12:00:00'', image_name = ''z.png'', ball_detected = True,
              confidence = PyFloat (87 / 100), bbox = Some [1, 2, 3, 4] \<rparr>]
   \<and> (\<exists>st. get_statistics \<lparr> history_file = Document
           [\<lparr> date = ''2024-05-01 10:00:00'', image_name = ''x.png'', ball_detected = False,
              confidence = PyInt 0, bbox = None \<rparr>,
            \<lparr> date = ''2024-05-01 11:00:00'', image_name = ''y.png'', ball_detected = True,
              confidence = PyFloat (31 / 50), bbox = Some [10, 20, 30, 40] \<rparr>,
            \<lparr> date = ''2024-05-01 12:00:00'', image_name = ''z.png'', ball_detected = True,
              confidence = PyFloat (87 / 100), bbox = Some [1, 2, 3, 4] \<rparr>],
         uploads_dir = [], results_dir = [] \<rparr> = Inr st
         \<and> total_images st = 3 \<and> found st = 2 \<and> not_found st = 1)"
proof -
  let ?h = "[\<lparr> date = ''2024-05-01 10:00:00'', image_name = ''x.png'', ball_detected = False,
              confidence = PyInt 0, bbox = None \<rparr>,
            \<lparr> date = ''2024-05-01 11:00:00'', image_name = ''y.png'', ball_detected = True,
              confidence = PyFloat (31 / 50), bbox = Some [10, 20, 30, 40] \<rparr>,
            \<lparr> date = ''2024-05-01 12:00:00'', image_name = ''z.png'', ball_detected = True,
              confidence = PyFloat (87 / 100), bbox = Some [1, 2, 3, 4] \<rparr>]"
  let ?s = "\<lparr> history_file = Document ?h, uploads_dir = [], results_dir = [] \<rparr>"
  have h1: "load_history ?s = Inr ?h"
    by simp
  from statistics_counts [OF h1]
  have "\<exists>st. get_statistics ?s = Inr st
          \<and> total_images st = 3 \<and> found st = 2 \<and> not_found st = 1"
    by auto
  with h1 show ?thesis
    by (intro conjI)
qed

text \<open>
  C6. On an empty history (the file absent, of size 0, or holding the empty
  array) \<open>get_statistics\<close> returns total_images 0, found 0, not_found 0 and
  avg_confidence 0; the division is not reached, so no ZeroDivisionError is
  raised.
\<close>

theorem statistics_empty_log:
  assumes "load_history s = Inr []"
  shows "get_statistics s =
           Inr \<lparr> total_images = 0, found = 0, not_found = 0, avg_confidence = PyInt 0 \<rparr>"
  unfolding get_statistics_loaded [OF assms]
  by (simp add: count_found_def)

theorem statistics_empty_log_witness:
  "load_history \<lparr> history_file = Missing, uploads_dir = [], results_dir = [] \<rparr> = Inr []
   \<and> get_statistics \<lparr> history_file = Missing, uploads_dir = [], results_dir = [] \<rparr>
       = Inr \<lparr> total_images = 0, found = 0, not_found = 0, avg_confidence = PyInt 0 \<rparr>
   \<and> load_history \<lparr> history_file = Zero_size, uploads_dir = [], results_dir = [] \<rparr> = Inr []
   \<and> get_statistics \<lparr> history_file = Zero_size, uploads_dir = [], results_dir = [] \<rparr>
       = Inr \<lparr> total_images = 0, found = 0, not_found = 0, avg_confidence = PyInt 0 \<rparr>
   \<and> load_history \<lparr> history_file = Document [], uploads_dir = [], results_dir = [] \<rparr> = Inr []
   \<and> get_statistics \<lparr> history_file = Document [], uploads_dir = [], results_dir = [] \<rparr>
       = Inr \<lparr> total_images = 0, found = 0, not_found = 0, avg_confidence = PyInt 0 \<rparr>"
proof -
  have h1: "load_history \<lparr> history_file = Missing, uploads_dir = [], results_dir = [] \<rparr>
              = Inr []"
    by simp
  have h2: "load_history \<lparr> history_file = Zero_size, uploads_dir = [], results_dir = [] \<rparr>
              = Inr []"
    by simp
  have h3: "load_history \<lparr> history_file = Document [], uploads_dir = [], results_dir = [] \<rparr>
              = Inr []"
    by simp
  from h1 h2 h3 statistics_empty_log [OF h1] statistics_empty_log [OF h2]
    statistics_empty_log [OF h3]
  show ?thesis
    by (intro conjI)
qed



section \<open>Unreadable history, and requests without a file\<close>







end
